theory Spec2Isabelle
  imports Complex_Main "HOL-Library.Word"
begin

section \<open>Conventions of the embedding\<close>

text \<open>
  The program is the canvas visualizer component (\<^verbatim>\<open>Visualizer.tsx\<close>): its easing
  functions, the \<^verbatim>\<open>Particle\<close> class, and the per-frame callback \<^verbatim>\<open>animate\<close> together with
  the codec negotiation of \<^verbatim>\<open>startRecording\<close>.

  A JavaScript \<^verbatim>\<open>number\<close> is modelled as a \<^typ>\<open>real\<close>: rounding of IEEE doubles is not
  part of the model. A counter that the code only ever sets to \<^verbatim>\<open>0\<close> and increments
  (\<^verbatim>\<open>life\<close>) is a \<^typ>\<open>nat\<close>. A value of \<^verbatim>\<open>Math.random()\<close> is a parameter of the
  function that consumes it. An optional field is an \<^typ>\<open>'a option\<close>.
\<close>

section \<open>Easing functions\<close>

text \<open>\<^verbatim>\<open>Math.pow(b, 3)\<close> and \<^verbatim>\<open>Math.pow(b, 2)\<close> are the powers \<open>b ^ 3\<close> and \<open>b ^ 2\<close>.\<close>

definition math_pow :: "real \<Rightarrow> nat \<Rightarrow> real" where
  "math_pow b n = b ^ n"

definition easeOutCubic :: "real \<Rightarrow> real" where
  "easeOutCubic x = 1 - math_pow (1 - x) 3"

definition easeInOutSine :: "real \<Rightarrow> real" where
  "easeInOutSine x = - (cos (pi * x) - 1) / 2"

definition easeOutBack :: "real \<Rightarrow> real" where
  "easeOutBack x =
     (let c1 = 1.70158;
          c3 = c1 + 1
      in 1 + c3 * math_pow (x - 1) 3 + c1 * math_pow (x - 1) 2)"

section \<open>Lyric lines and the phase selection of the frame callback\<close>

record LyricLine =
  line_id :: string
  startTime :: real
  endTime :: real
  text_of :: string
  translation :: "string option"

datatype phase = Enter | Active | Exit

text \<open>
  \<^verbatim>\<open>settings.transitionDuration || 0.5\<close>: the default replaces a missing value and the
  falsy number \<^verbatim>\<open>0\<close>.
\<close>

definition transitionDuration_of :: "real option \<Rightarrow> real" where
  "transitionDuration_of td =
     (case td of None \<Rightarrow> 0.5 | Some v \<Rightarrow> if v = 0 then 0.5 else v)"

text \<open>
  The body of \<^verbatim>\<open>lyrics.forEach\<close>: the call of \<^verbatim>\<open>drawLine\<close> made for one line, if any, as
  the pair of its phase and progress arguments.
\<close>

definition select_phase :: "real \<Rightarrow> real \<Rightarrow> LyricLine \<Rightarrow> (phase \<times> real) option" where
  "select_phase transitionDuration currentTime line =
     (let timeSinceStart = currentTime - startTime line in
      if currentTime \<ge> startTime line \<and> currentTime < endTime line then
        (if timeSinceStart < transitionDuration
         then Some (Enter, timeSinceStart / transitionDuration)
         else Some (Active, 1))
      else if currentTime \<ge> endTime line \<and> currentTime < endTime line + transitionDuration then
        (let exitProgress = (currentTime - endTime line) / transitionDuration
         in Some (Exit, exitProgress))
      else None)"

text \<open>The \<^verbatim>\<open>drawLine\<close> calls of one frame, in the order of the lyric sequence.\<close>

definition lyric_calls :: "real option \<Rightarrow> real \<Rightarrow> LyricLine list \<Rightarrow> (LyricLine \<times> phase \<times> real) list" where
  "lyric_calls td currentTime lyrics =
     List.map_filter
       (\<lambda>line. map_option (\<lambda>c. (line, c)) (select_phase (transitionDuration_of td) currentTime line))
       lyrics"

section \<open>Settings\<close>

datatype ParticleStyle = STANDARD | COSMOS | OCEAN | GEOMETRIC | MUSICAL | SNOW

datatype BackgroundMode = COLOR | IMAGE | VIDEO

datatype AnimationType = FADE | SLIDE_UP | ZOOM | BOUNCE | TYPEWRITER | KINETIC | REVEAL | WAVE

text \<open>
  The fields of \<^verbatim>\<open>VisualSettings\<close> that the modelled code reads. Fields read through
  \<^verbatim>\<open>??\<close> or \<^verbatim>\<open>||\<close>, and fields declared optional, are options.
\<close>

record VisualSettings =
  primaryColor :: string
  secondaryColor :: string
  backgroundColor :: string
  particleCount :: real
  particleSpeed :: "real option"
  particleSize :: "real option"
  beatSensitivity :: real
  backgroundMode :: BackgroundMode
  backgroundVideo :: "string option"
  backgroundBrightness :: "real option"
  animationType :: AnimationType
  transitionDuration :: "real option"
  particleStyle :: ParticleStyle

text \<open>\<^verbatim>\<open>v ?? d\<close>: the default stands in for a missing value only.\<close>

definition nullish :: "real option \<Rightarrow> real \<Rightarrow> real" where
  "nullish v d = (case v of None \<Rightarrow> d | Some u \<Rightarrow> u)"


section \<open>The particle class\<close>

record Particle =
  px :: real
  py :: real
  vx :: real
  vy :: real
  psize :: real
  color :: string
  life :: nat
  maxLife :: real
  style :: ParticleStyle
  angle :: real
  rotationSpeed :: real
  ptype :: nat

text \<open>
  The constructor. \<open>rs i\<close> is the value of the \<open>i\<close>-th call of \<^verbatim>\<open>Math.random()\<close> that the
  constructor makes, counted from \<open>0\<close> in program order.
\<close>

definition new_Particle ::
  "real \<Rightarrow> real \<Rightarrow> string \<Rightarrow> ParticleStyle \<Rightarrow> real \<Rightarrow> (nat \<Rightarrow> real) \<Rightarrow> Particle" where
  "new_Particle w h col sty sizeMultiplier rs =
     (let p0 = \<lparr>px = rs 0 * w, py = rs 1 * h, vx = 0, vy = 0, psize = 0, color = col,
                life = 0, maxLife = rs 2 * 100 + 100, style = sty,
                angle = rs 3 * pi * 2, rotationSpeed = (rs 4 - 0.5) * 0.05,
                ptype = nat \<lfloor>rs 5 * 3\<rfloor>\<rparr>
      in if sty = OCEAN then
           p0\<lparr>vx := (rs 6 - 0.5) * 0.5, vy := - rs 7 * 1.5 - 0.2,
              psize := (rs 8 * 4 + 2) * sizeMultiplier\<rparr>
         else if sty = COSMOS then
           (let baseSize = (if ptype p0 = 0 then rs 8 * 1.5 + 0.5 else rs 8 * 4 + 2)
            in p0\<lparr>vx := (rs 6 - 0.5) * 0.2, vy := (rs 7 - 0.5) * 0.2,
                  psize := baseSize * sizeMultiplier, maxLife := rs 9 * 200 + 200\<rparr>)
         else if sty = GEOMETRIC then
           p0\<lparr>vx := (rs 6 - 0.5) * 2, vy := (rs 7 - 0.5) * 2,
              psize := (rs 8 * 6 + 4) * sizeMultiplier, rotationSpeed := (rs 9 - 0.5) * 0.1\<rparr>
         else if sty = MUSICAL then
           p0\<lparr>vx := (rs 6 - 0.5) * 1, vy := - rs 7 * 1 - 0.2,
              psize := (rs 8 * 10 + 10) * sizeMultiplier, rotationSpeed := (rs 9 - 0.5) * 0.02\<rparr>
         else if sty = SNOW then
           p0\<lparr>vx := (rs 6 - 0.5) * 0.5, vy := rs 7 * 2 + 1,
              psize := (rs 8 * 3 + 1) * sizeMultiplier\<rparr>
         else
           p0\<lparr>vx := (rs 6 - 0.5) * 1, vy := (rs 7 - 0.5) * 1,
              psize := (rs 8 * 3 + 1) * sizeMultiplier\<rparr>)"

text \<open>
  \<^verbatim>\<open>Particle.update\<close>, in three parts as in the source: the move, the rotation and the age
  increment, then the boundary policy. \<open>r\<close> is the value of \<^verbatim>\<open>Math.random()\<close> used when
  the particle is reset to the opposite edge.
\<close>

definition Particle_move :: "real \<Rightarrow> real \<Rightarrow> Particle \<Rightarrow> Particle" where
  "Particle_move beatFactor speedFactor p =
     (let moveX = vx p * speedFactor * beatFactor;
          moveY = vy p * speedFactor * beatFactor
      in if style p = OCEAN then
           p\<lparr>px := px p + (moveX + sin (real (life p) * 0.05) * 0.5), py := py p + moveY\<rparr>
         else if style p = SNOW then
           p\<lparr>px := px p + (moveX + sin (real (life p) * 0.05) * 0.5), py := py p + moveY\<rparr>
         else
           p\<lparr>px := px p + moveX, py := py p + moveY\<rparr>)"

definition Particle_turn :: "real \<Rightarrow> real \<Rightarrow> Particle \<Rightarrow> Particle" where
  "Particle_turn beatFactor speedFactor p =
     p\<lparr>angle := angle p + rotationSpeed p * beatFactor * speedFactor, life := life p + 1\<rparr>"

definition Particle_boundary :: "real \<Rightarrow> real \<Rightarrow> real \<Rightarrow> Particle \<Rightarrow> Particle" where
  "Particle_boundary width height r p =
     (if style p = OCEAN \<or> style p = MUSICAL then
        (if py p < - 50 then p\<lparr>py := height + 50, px := r * width, life := 0\<rparr> else p)
      else if style p = SNOW then
        (if py p > height + 50 then p\<lparr>py := - 50, px := r * width, life := 0\<rparr> else p)
      else
        (let p1 = (if px p < 0 \<or> px p > width then p\<lparr>vx := vx p * (- 1)\<rparr> else p)
         in if py p1 < 0 \<or> py p1 > height then p1\<lparr>vy := vy p1 * (- 1)\<rparr> else p1))"

definition Particle_update :: "real \<Rightarrow> real \<Rightarrow> real \<Rightarrow> real \<Rightarrow> real \<Rightarrow> Particle \<Rightarrow> Particle" where
  "Particle_update width height beatFactor speedFactor r p =
     Particle_boundary width height r (Particle_turn beatFactor speedFactor (Particle_move beatFactor speedFactor p))"

text \<open>
  Of \<^verbatim>\<open>Particle.draw\<close> the model keeps the opacity it sets before drawing the shape,
  \<^verbatim>\<open>Math.max(0, 1 - life / maxLife)\<close>; a frame records the state of every particle at the
  moment it is passed to \<^verbatim>\<open>draw\<close>.
\<close>

definition draw_globalAlpha :: "Particle \<Rightarrow> real" where
  "draw_globalAlpha p = max 0 (1 - real (life p) / maxLife p)"

section \<open>The particle pass of a frame\<close>

text \<open>\<^verbatim>\<open>pool.splice(index, 1)\<close>.\<close>

definition splice1 :: "Particle list \<Rightarrow> nat \<Rightarrow> Particle list" where
  "splice1 pool index = take index pool @ drop (Suc index) pool"

text \<open>The test that guards the removal, on the particle after its update.\<close>

definition expired_or_outside :: "real \<Rightarrow> real \<Rightarrow> Particle \<Rightarrow> bool" where
  "expired_or_outside width height p =
     (real (life p) \<ge> maxLife p \<or> py p < - 100 \<or> py p > height + 100
      \<or> px p < - 100 \<or> px p > width + 100)"

definition removes :: "VisualSettings \<Rightarrow> real \<Rightarrow> real \<Rightarrow> Particle \<Rightarrow> bool" where
  "removes s width height p =
     (if expired_or_outside width height p then
        (if particleStyle s \<noteq> OCEAN \<and> particleStyle s \<noteq> MUSICAL \<and> particleStyle s \<noteq> SNOW then True
         else if real (life p) \<ge> maxLife p then True
         else False)
      else False)"

text \<open>
  The callback of \<^verbatim>\<open>particlesRef.current.forEach\<close> for the particle \<open>p\<close> found at \<open>index\<close>:
  update it in place, draw it, then splice it out of the pool if the removal test says so.
  The state is the pool and the list of particles drawn so far.
\<close>

definition particle_callback ::
  "VisualSettings \<Rightarrow> real \<Rightarrow> real \<Rightarrow> real \<Rightarrow> real \<Rightarrow> nat \<Rightarrow> Particle list \<times> Particle list
     \<Rightarrow> Particle list \<times> Particle list" where
  "particle_callback s width height beatFactor r index st =
     (let pool = fst st;
          p = Particle_update width height beatFactor (nullish (particleSpeed s) 1.0) r (pool ! index);
          pool1 = pool[index := p];
          drawn1 = snd st @ [p]
      in if removes s width height p then (splice1 pool1 index, drawn1) else (pool1, drawn1))"

text \<open>
  \<^verbatim>\<open>Array.prototype.forEach\<close>: the length is read once, the index \<open>k\<close> runs from \<open>0\<close> below
  it, and the callback is called for the indices still present in the array at that
  moment. \<open>rnd k\<close> is the value of \<^verbatim>\<open>Math.random()\<close> available to the call at index \<open>k\<close>.
\<close>

function particle_loop ::
  "VisualSettings \<Rightarrow> real \<Rightarrow> real \<Rightarrow> real \<Rightarrow> (nat \<Rightarrow> real) \<Rightarrow> nat \<Rightarrow> nat
     \<Rightarrow> Particle list \<times> Particle list \<Rightarrow> Particle list \<times> Particle list" where
  "particle_loop s width height beatFactor rnd len k st =
     (if k < len then
        (if k < length (fst st)
         then particle_loop s width height beatFactor rnd len (Suc k)
                (particle_callback s width height beatFactor (rnd k) k st)
         else particle_loop s width height beatFactor rnd len (Suc k) st)
      else st)"
  by pat_completeness auto
termination
  by (relation "measure (\<lambda>(s, width, height, beatFactor, rnd, len, k, st). len - k)") auto

declare particle_loop.simps [simp del]

definition particle_pass ::
  "VisualSettings \<Rightarrow> real \<Rightarrow> real \<Rightarrow> real \<Rightarrow> (nat \<Rightarrow> real) \<Rightarrow> Particle list
     \<Rightarrow> Particle list \<times> Particle list" where
  "particle_pass s width height beatFactor rnd pool =
     particle_loop s width height beatFactor rnd (length pool) 0 (pool, [])"

text \<open>
  The particle section of \<^verbatim>\<open>animate\<close>: at most one new particle is pushed, then the pass
  runs. \<open>rc\<close> is the random value of the colour choice and \<open>rs\<close> the constructor's.
\<close>

definition spawn :: "VisualSettings \<Rightarrow> real \<Rightarrow> real \<Rightarrow> real \<Rightarrow> (nat \<Rightarrow> real) \<Rightarrow> Particle list \<Rightarrow> Particle list" where
  "spawn s width height rc rs pool =
     (if real (length pool) < particleCount s
      then pool @ [new_Particle width height (if rc > 0.5 then primaryColor s else secondaryColor s)
                     (particleStyle s) (nullish (particleSize s) 1.0) rs]
      else pool)"

definition particles_frame ::
  "VisualSettings \<Rightarrow> real \<Rightarrow> real \<Rightarrow> real \<Rightarrow> real \<Rightarrow> (nat \<Rightarrow> real) \<Rightarrow> (nat \<Rightarrow> real) \<Rightarrow> Particle list
     \<Rightarrow> Particle list \<times> Particle list" where
  "particles_frame s width height beatFactor rc rs rnd pool =
     particle_pass s width height beatFactor rnd (spawn s width height rc rs pool)"

section \<open>The beat factor\<close>

text \<open>
  The analyser node as the frame sees it: its \<^verbatim>\<open>frequencyBinCount\<close> and the byte that
  \<^verbatim>\<open>getByteFrequencyData\<close> writes for each bin. The frame allocates a \<^verbatim>\<open>Uint8Array\<close> of
  \<^verbatim>\<open>frequencyBinCount\<close> bytes and has it filled.
\<close>

record AnalyserNode =
  frequencyBinCount :: nat
  byteFrequencyData :: "nat \<Rightarrow> 8 word"

text \<open>
  The analyser of this program: \<^verbatim>\<open>initAudio\<close> creates it with \<^verbatim>\<open>fftSize = 256\<close>, and an
  analyser has half as many bins as its FFT size. \<open>d\<close> is the spectrum at the moment of
  the poll.
\<close>

definition initAudio_analyser :: "(nat \<Rightarrow> 8 word) \<Rightarrow> AnalyserNode" where
  "initAudio_analyser d = \<lparr>frequencyBinCount = 256 div 2, byteFrequencyData = d\<rparr>"

definition dataArray_of :: "AnalyserNode \<Rightarrow> 8 word list" where
  "dataArray_of a = map (byteFrequencyData a) [0..<frequencyBinCount a]"

text \<open>
  \<^verbatim>\<open>sum += dataArray[i]\<close>, with \<open>acc\<close> for \<^verbatim>\<open>sum\<close>. A read past the end of the array yields \<^verbatim>\<open>undefined\<close> and the
  sum becomes \<^verbatim>\<open>NaN\<close> for good: \<open>None\<close> stands for \<^verbatim>\<open>NaN\<close>.
\<close>

definition add_bin :: "8 word list \<Rightarrow> nat \<Rightarrow> real option \<Rightarrow> real option" where
  "add_bin dataArray i acc =
     (case acc of
        None \<Rightarrow> None
      | Some v \<Rightarrow> if i < length dataArray then Some (v + real (unat (dataArray ! i))) else None)"

definition beatFactor_of :: "AnalyserNode option \<Rightarrow> VisualSettings \<Rightarrow> real option" where
  "beatFactor_of analyser s =
     (case analyser of
        None \<Rightarrow> Some 1.0
      | Some a \<Rightarrow>
          (case fold (add_bin (dataArray_of a)) [0..<20] (Some 0) of
             None \<Rightarrow> None
           | Some summed \<Rightarrow> (let average = summed / 20 in Some (1 + (average / 255) * beatSensitivity s))))"

section \<open>The background step\<close>












section \<open>The per-character pop of the KINETIC animation\<close>

text \<open>
  The callback of \<^verbatim>\<open>chars.forEach\<close> in the KINETIC branch of \<^verbatim>\<open>drawLine\<close>, for the character
  at \<open>idx\<close> of a sub-line of \<open>n\<close> characters: its clamped window progress, and the scale it
  is drawn with, if it is drawn.
\<close>

definition kinetic_clampedP :: "real \<Rightarrow> nat \<Rightarrow> nat \<Rightarrow> real" where
  "kinetic_clampedP progress n idx =
     (let startP = (real idx / real n) * 0.8;
          endP = startP + 0.3;
          p = (progress - startP) / (endP - startP)
      in max 0 (min 1 p))"

definition kinetic_charScale :: "real \<Rightarrow> nat \<Rightarrow> nat \<Rightarrow> real option" where
  "kinetic_charScale progress n idx =
     (let clampedP = kinetic_clampedP progress n idx
      in if clampedP > 0 then Some (easeOutBack clampedP) else None)"

definition kinetic_scales :: "real \<Rightarrow> string \<Rightarrow> real option list" where
  "kinetic_scales progress txt =
     map (kinetic_charScale progress (length txt)) [0..<length txt]"

section \<open>Codec negotiation\<close>

record codec =
  mime :: string
  ext :: string

definition types :: "codec list" where
  "types =
     [\<lparr>mime = ''video/mp4'', ext = ''mp4''\<rparr>,
      \<lparr>mime = ''video/webm;codecs=h264'', ext = ''webm''\<rparr>,
      \<lparr>mime = ''video/webm;codecs=vp9'', ext = ''webm''\<rparr>,
      \<lparr>mime = ''video/webm'', ext = ''webm''\<rparr>]"

text \<open>
  The negotiation of \<^verbatim>\<open>startRecording\<close>: the pair of \<^verbatim>\<open>mimeType\<close> and the extension stored
  in \<^verbatim>\<open>recordingExtRef\<close>, for a platform whose \<^verbatim>\<open>MediaRecorder.isTypeSupported\<close> is the
  given predicate.
\<close>

definition negotiate :: "(string \<Rightarrow> bool) \<Rightarrow> string \<times> string" where
  "negotiate isTypeSupported =
     (let supported = find (\<lambda>t. isTypeSupported (mime t)) types;
          mimeType = (case supported of Some t \<Rightarrow> mime t | None \<Rightarrow> ''video/webm'');
          recordingExt = (case supported of Some t \<Rightarrow> ext t | None \<Rightarrow> ''webm'')
      in (mimeType, recordingExt))"

section \<open>Notions used in the statements about particles\<close>

text \<open>
  The condition under which \<^verbatim>\<open>update\<close> resets a particle to the opposite edge: a style
  that wraps around, and a position after the move beyond the line 50 units outside.
\<close>

definition resets :: "real \<Rightarrow> real \<Rightarrow> real \<Rightarrow> Particle \<Rightarrow> bool" where
  "resets height beatFactor speedFactor p =
     (let y1 = py p + vy p * speedFactor * beatFactor
      in ((style p = OCEAN \<or> style p = MUSICAL) \<and> y1 < - 50) \<or> (style p = SNOW \<and> y1 > height + 50))"

definition wraparound :: "ParticleStyle \<Rightarrow> bool" where
  "wraparound sty = (sty = OCEAN \<or> sty = MUSICAL \<or> sty = SNOW)"

text \<open>Age expiry, and a position more than 100 units outside the canvas on some side.\<close>

definition expired :: "Particle \<Rightarrow> bool" where
  "expired p = (real (life p) \<ge> maxLife p)"

definition outside :: "real \<Rightarrow> real \<Rightarrow> Particle \<Rightarrow> bool" where
  "outside width height p =
     (px p < - 100 \<or> px p > width + 100 \<or> py p < - 100 \<or> py p > height + 100)"

text \<open>
  The invariant of the pool between frames, and what it gives for a particle at the
  moment it is drawn.
\<close>

definition young :: "Particle \<Rightarrow> bool" where
  "young p = (real (life p) < maxLife p)"

definition drawable :: "Particle \<Rightarrow> bool" where
  "drawable d = (real (life d) < maxLife d + 1 \<and> 0 < maxLife d)"

section \<open>Concrete inputs\<close>

text \<open>The lyric line of the worked timing example: it starts at 10 s and ends at 14 s.\<close>

definition line_10_14 :: LyricLine where
  "line_10_14 =
     \<lparr>line_id = ''1'', startTime = 10, endTime = 14, text_of = ''la la'', translation = None\<rparr>"

text \<open>The settings the application starts with (\<^verbatim>\<open>DEFAULT_SETTINGS\<close> of the main component).\<close>

definition DEFAULT_SETTINGS :: VisualSettings where
  "DEFAULT_SETTINGS =
     \<lparr>primaryColor = ''#fbbf24'', secondaryColor = ''#ea580c'', backgroundColor = ''#1c1917'',
      particleCount = 50, particleSpeed = Some 1.0, particleSize = None, beatSensitivity = 1.0,
      backgroundMode = COLOR, backgroundVideo = None, backgroundBrightness = Some 1.0,
      animationType = SLIDE_UP, transitionDuration = Some 0.6, particleStyle = STANDARD\<rparr>"

text \<open>A platform that supports the VP9 entry of the preference list and nothing else.\<close>

definition only_vp9 :: "string \<Rightarrow> bool" where
  "only_vp9 m = (m = ''video/webm;codecs=vp9'')"





text \<open>The analyser of this program at a moment when every bin is at full scale.\<close>

definition analyser_full_scale :: AnalyserNode where
  "analyser_full_scale = initAudio_analyser (\<lambda>i. 255)"

text \<open>
  Particles for the worked examples of the pass, on the 1920 by 1080 canvas. Their fields
  lie in the ranges the constructor draws from.
  \<^item> \<open>p_expiring\<close>: a STANDARD particle one update away from its maximal age.
  \<^item> \<open>p_fresh\<close>: a STANDARD particle three frames old.
  \<^item> \<open>p_ocean_far\<close>: an OCEAN particle that has drifted 150 units past the left edge.
  \<^item> \<open>p_ocean_top\<close>: an OCEAN particle about to cross the line 50 units above the top edge.
\<close>

definition p_expiring :: Particle where
  "p_expiring =
     \<lparr>px = 100, py = 100, vx = 0.25, vy = 0.25, psize = 2, color = ''#fbbf24'',
      life = 100, maxLife = 100.5, style = STANDARD, angle = 2, rotationSpeed = 0.01, ptype = 0\<rparr>"

definition p_fresh :: Particle where
  "p_fresh =
     \<lparr>px = 200, py = 200, vx = 0.4, vy = - 0.4, psize = 3, color = ''#ea580c'',
      life = 3, maxLife = 150, style = STANDARD, angle = 1, rotationSpeed = 0.02, ptype = 1\<rparr>"

definition p_ocean_far :: Particle where
  "p_ocean_far =
     \<lparr>px = - 150, py = 500, vx = - 0.25, vy = - 0.3, psize = 4, color = ''#fbbf24'',
      life = 130, maxLife = 180, style = OCEAN, angle = 2, rotationSpeed = 0.01, ptype = 2\<rparr>"

definition p_ocean_top :: Particle where
  "p_ocean_top =
     \<lparr>px = 300, py = - 49, vx = 0, vy = - 1.5, psize = 4, color = ''#fbbf24'',
      life = 160, maxLife = 190, style = OCEAN, angle = 3, rotationSpeed = 0.01, ptype = 2\<rparr>"

text \<open>A source of random values that always yields \<open>0.5\<close>.\<close>

definition half :: "nat \<Rightarrow> real" where
  "half k = 0.5"

section \<open>Properties of the easing functions\<close>

text \<open>
  C9. The three easing functions equal their reference formulas, for every real argument
  and so for every \<open>x\<close> in \<open>[0, 1]\<close>: \<open>easeOutCubic x = 1 - (1 - x)\<^sup>3\<close>,
  \<open>easeInOutSine x = - (cos (\<pi> x) - 1) / 2\<close>, and
  \<open>easeOutBack x = 1 + c3 (x - 1)\<^sup>3 + c1 (x - 1)\<^sup>2\<close> with \<open>c1 = 1.70158\<close> and \<open>c3 = c1 + 1\<close>.
  The last one overshoots: it exceeds \<open>1\<close> at some point strictly between \<open>0\<close> and \<open>1\<close>
  (at \<open>1/2\<close> its value is \<open>1.0876975\<close>).
\<close>

theorem easing_reference:
  "easeOutCubic x = 1 - (1 - x) ^ 3
   \<and> easeInOutSine x = - (cos (pi * x) - 1) / 2
   \<and> easeOutBack x = 1 + (1.70158 + 1) * (x - 1) ^ 3 + 1.70158 * (x - 1) ^ 2
   \<and> (\<exists>u. 0 < u \<and> u < 1 \<and> 1 < easeOutBack u)"
proof -
  have "1 < easeOutBack (1 / 2)"
    by (simp add: easeOutBack_def math_pow_def Let_def power2_eq_square power3_eq_cube)
  then have "\<exists>u. 0 < u \<and> u < 1 \<and> 1 < easeOutBack u"
    by (intro exI [of _ "1 / 2"]) simp
  then show ?thesis
    by (simp add: easeOutCubic_def easeInOutSine_def easeOutBack_def math_pow_def Let_def)
qed

section \<open>Properties of the phase selection\<close>

text \<open>
  C1. With a positive effective transition duration \<open>td\<close> (the setting, or \<open>0.5\<close> when the
  setting is missing or \<open>0\<close>), the call of \<^verbatim>\<open>drawLine\<close> made for a line is a function of the
  line and the current time alone: phase enter with progress
  \<open>(currentTime - startTime) / td\<close> exactly when the time is in
  \<open>[startTime, startTime + td)\<close> and before \<open>endTime\<close>; phase active with progress \<open>1\<close>
  exactly when it is in \<open>[startTime + td, endTime)\<close>; phase exit with progress
  \<open>(currentTime - endTime) / td\<close> exactly when it is in \<open>[endTime, endTime + td)\<close>; and no
  call otherwise.
\<close>

theorem phase_selection:
  assumes "0 < transitionDuration_of s"
  shows "let td = transitionDuration_of s;
             sel = select_phase td ct l;
             entering = (startTime l \<le> ct \<and> ct < startTime l + td \<and> ct < endTime l);
             showing = (startTime l + td \<le> ct \<and> ct < endTime l);
             leaving = (endTime l \<le> ct \<and> ct < endTime l + td)
         in sel = (if entering then Some (Enter, (ct - startTime l) / td)
                   else if showing then Some (Active, 1)
                   else if leaving then Some (Exit, (ct - endTime l) / td)
                   else None)
            \<and> (map_option fst sel = Some Enter) = entering
            \<and> (map_option fst sel = Some Active) = showing
            \<and> (map_option fst sel = Some Exit) = leaving
            \<and> (sel = None) = (\<not> entering \<and> \<not> showing \<and> \<not> leaving)"
  using assms by (auto simp: select_phase_def Let_def)

text \<open>
  The worked example: a line from 10 s to 14 s with a transition of 0.5 s enters with
  progress \<open>0\<close> at 10.0 and \<open>0.5\<close> at 10.25, is active at 10.5, exits with progress \<open>0\<close> at
  14.0, and is not drawn at 9.99, 14.5 and 14.51.
\<close>

theorem phase_selection_witness:
  "0 < transitionDuration_of (Some 0.5)
   \<and> select_phase (transitionDuration_of (Some 0.5)) 10 line_10_14 = Some (Enter, 0)
   \<and> select_phase (transitionDuration_of (Some 0.5)) 10.25 line_10_14 = Some (Enter, 0.5)
   \<and> select_phase (transitionDuration_of (Some 0.5)) 10.5 line_10_14 = Some (Active, 1)
   \<and> select_phase (transitionDuration_of (Some 0.5)) 14 line_10_14 = Some (Exit, 0)
   \<and> select_phase (transitionDuration_of (Some 0.5)) 9.99 line_10_14 = None
   \<and> select_phase (transitionDuration_of (Some 0.5)) 14.5 line_10_14 = None
   \<and> select_phase (transitionDuration_of (Some 0.5)) 14.51 line_10_14 = None"
proof -
  have h: "0 < transitionDuration_of (Some 0.5)"
    by (simp add: transitionDuration_of_def)
  note t = phase_selection [OF h, unfolded Let_def, THEN conjunct1]
  have "select_phase (transitionDuration_of (Some 0.5)) 10 line_10_14 = Some (Enter, 0)"
    by (subst t) (simp add: line_10_14_def transitionDuration_of_def)
  moreover have "select_phase (transitionDuration_of (Some 0.5)) 10.25 line_10_14 = Some (Enter, 0.5)"
    by (subst t) (simp add: line_10_14_def transitionDuration_of_def)
  moreover have "select_phase (transitionDuration_of (Some 0.5)) 10.5 line_10_14 = Some (Active, 1)"
    by (subst t) (simp add: line_10_14_def transitionDuration_of_def)
  moreover have "select_phase (transitionDuration_of (Some 0.5)) 14 line_10_14 = Some (Exit, 0)"
    by (subst t) (simp add: line_10_14_def transitionDuration_of_def)
  moreover have "select_phase (transitionDuration_of (Some 0.5)) 9.99 line_10_14 = None"
    by (subst t) (simp add: line_10_14_def transitionDuration_of_def)
  moreover have "select_phase (transitionDuration_of (Some 0.5)) 14.5 line_10_14 = None"
    by (subst t) (simp add: line_10_14_def transitionDuration_of_def)
  moreover have "select_phase (transitionDuration_of (Some 0.5)) 14.51 line_10_14 = None"
    by (subst t) (simp add: line_10_14_def transitionDuration_of_def)
  ultimately show ?thesis
    using h by blast
qed

section \<open>Properties of the codec negotiation\<close>

text \<open>
  C6. The negotiation probes the ordered list \<open>video/mp4\<close>, \<open>video/webm;codecs=h264\<close>,
  \<open>video/webm;codecs=vp9\<close>, \<open>video/webm\<close> and returns the mime type and the extension of
  the first entry the platform supports; when no entry is supported it returns
  \<open>video/webm\<close> and \<open>webm\<close>. In particular, when the two entries before the VP9 entry are
  unsupported and the VP9 entry is supported, the result is the VP9 mime type with the
  extension \<open>webm\<close>.
\<close>

theorem negotiate_first_supported:
  "map mime types = [''video/mp4'', ''video/webm;codecs=h264'', ''video/webm;codecs=vp9'', ''video/webm'']
   \<and> (\<forall>i < length types.
         supp (mime (types ! i)) \<and> (\<forall>j < i. \<not> supp (mime (types ! j)))
           \<longrightarrow> negotiate supp = (mime (types ! i), ext (types ! i)))
   \<and> ((\<forall>t \<in> set types. \<not> supp (mime t)) \<longrightarrow> negotiate supp = (''video/webm'', ''webm''))
   \<and> (\<not> supp ''video/mp4'' \<and> \<not> supp ''video/webm;codecs=h264'' \<and> supp ''video/webm;codecs=vp9''
         \<longrightarrow> negotiate supp = (''video/webm;codecs=vp9'', ''webm''))"
proof (intro conjI allI impI)
  show "map mime types = [''video/mp4'', ''video/webm;codecs=h264'', ''video/webm;codecs=vp9'', ''video/webm'']"
    by (simp add: types_def)
next
  fix i
  assume i: "i < length types"
    and first: "supp (mime (types ! i)) \<and> (\<forall>j < i. \<not> supp (mime (types ! j)))"
  then have "find (\<lambda>t. supp (mime t)) types = Some (types ! i)"
    unfolding find_Some_iff by blast
  then show "negotiate supp = (mime (types ! i), ext (types ! i))"
    by (simp add: negotiate_def)
next
  assume "\<forall>t \<in> set types. \<not> supp (mime t)"
  then have "find (\<lambda>t. supp (mime t)) types = None"
    unfolding find_None_iff by blast
  then show "negotiate supp = (''video/webm'', ''webm'')"
    by (simp add: negotiate_def)
next
  assume "\<not> supp ''video/mp4'' \<and> \<not> supp ''video/webm;codecs=h264'' \<and> supp ''video/webm;codecs=vp9''"
  then show "negotiate supp = (''video/webm;codecs=vp9'', ''webm'')"
    by (simp add: negotiate_def types_def)
qed

text \<open>
  Three platforms: one that supports the VP9 entry only, one that supports nothing, one
  that supports everything.
\<close>

theorem negotiate_first_supported_witness:
  "negotiate only_vp9 = (''video/webm;codecs=vp9'', ''webm'')
   \<and> negotiate (\<lambda>m. False) = (''video/webm'', ''webm'')
   \<and> negotiate (\<lambda>m. True) = (''video/mp4'', ''mp4'')"
proof -
  note t = negotiate_first_supported
  have a: "\<not> only_vp9 ''video/mp4'' \<and> \<not> only_vp9 ''video/webm;codecs=h264'' \<and> only_vp9 ''video/webm;codecs=vp9''"
    by (simp add: only_vp9_def)
  have "negotiate only_vp9 = (''video/webm;codecs=vp9'', ''webm'')"
    using t [of only_vp9] a by blast
  moreover have "negotiate (\<lambda>m. False) = (''video/webm'', ''webm'')"
    using t [of "\<lambda>m. False"] by blast
  moreover have "negotiate (\<lambda>m. True) = (''video/mp4'', ''mp4'')"
  proof -
    have "0 < length types" by (simp add: types_def)
    then have "negotiate (\<lambda>m. True) = (mime (types ! 0), ext (types ! 0))"
      using t [of "\<lambda>m. True"] by blast
    then show ?thesis by (simp add: types_def)
  qed
  ultimately show ?thesis by blast
qed

section \<open>Properties of the background step\<close>




section \<open>Properties of the KINETIC pop\<close>

text \<open>
  C8 as stated fails in its example: with 5 characters and progress \<open>0.5\<close>, the window of
  character 4 starts at \<open>0.64\<close>, so its clamped window progress is \<open>0\<close>, not strictly
  between \<open>0\<close> and \<open>1\<close>.
\<close>

theorem kinetic_partway_counterexample:
  "\<not> (0 < kinetic_clampedP 0.5 5 4 \<and> kinetic_clampedP 0.5 5 4 < 1)"
  by (simp add: kinetic_clampedP_def Let_def)

text \<open>
  C8, amended. For the character at index \<open>idx\<close> of a sub-line of \<open>n\<close> characters, with
  \<open>startP = idx / n \<times> 0.8\<close>: the clamped window progress is \<open>0\<close> up to \<open>startP\<close>, rises
  linearly over the window \<open>[startP, startP + 0.3)\<close> and is \<open>1\<close> from its end on; the
  character is drawn only once the progress has passed \<open>startP\<close>, and then with the scale
  \<open>easeOutBack\<close> of the clamped window progress.
\<close>

theorem kinetic_window:
  assumes "idx < n"
  shows "let startP = real idx / real n * 0.8 in
           kinetic_clampedP progress n idx =
             (if progress \<le> startP then 0
              else if startP + 0.3 \<le> progress then 1
              else (progress - startP) / 0.3)
           \<and> kinetic_charScale progress n idx =
             (if progress \<le> startP then None
              else Some (easeOutBack (kinetic_clampedP progress n idx)))"
proof -
  define a where "a = real idx / real n * 0.8"
  have c: "kinetic_clampedP progress n idx = max 0 (min 1 ((progress - a) / 0.3))"
    by (simp add: kinetic_clampedP_def Let_def a_def)
  have m: "max 0 (min 1 ((progress - a) / 0.3)) =
             (if progress \<le> a then 0 else if a + 0.3 \<le> progress then 1 else (progress - a) / 0.3)"
    by (simp add: max_def min_def)
  have pos: "0 < max 0 (min 1 ((progress - a) / 0.3)) \<longleftrightarrow> \<not> progress \<le> a"
    by (auto simp: max_def min_def)
  show ?thesis
    unfolding Let_def a_def [symmetric] kinetic_charScale_def c
    using m pos by simp
qed

text \<open>
  With 5 characters and progress \<open>0.5\<close>: character 0 is fully scaled in, character 4 is
  not drawn yet, character 2 is partway (\<open>0.6\<close>); character 4 is partway at progress \<open>0.7\<close>.
\<close>

theorem kinetic_window_witness:
  "(4::nat) < 5
   \<and> kinetic_clampedP 0.5 5 0 = 1 \<and> kinetic_charScale 0.5 5 0 = Some 1
   \<and> kinetic_clampedP 0.5 5 4 = 0 \<and> kinetic_charScale 0.5 5 4 = None
   \<and> kinetic_clampedP 0.5 5 2 = 0.6
   \<and> kinetic_clampedP 0.7 5 4 = 0.2"
proof -
  have e1: "easeOutBack 1 = 1"
    by (simp add: easeOutBack_def math_pow_def Let_def)
  have "kinetic_clampedP 0.5 5 0 = 1 \<and> kinetic_charScale 0.5 5 0 = Some 1"
    using kinetic_window [of 0 5 "0.5"] e1 by (simp add: Let_def)
  moreover have "kinetic_clampedP 0.5 5 4 = 0 \<and> kinetic_charScale 0.5 5 4 = None"
    using kinetic_window [of 4 5 "0.5"] by (simp add: Let_def)
  moreover have "kinetic_clampedP 0.5 5 2 = 0.6"
    using kinetic_window [of 2 5 "0.5"] by (simp add: Let_def)
  moreover have "kinetic_clampedP 0.7 5 4 = 0.2"
    using kinetic_window [of 4 5 "0.7"] by (simp add: Let_def)
  ultimately show ?thesis by simp
qed

section \<open>Properties of the beat factor\<close>

text \<open>The summation loop adds up the bins it can read.\<close>

lemma fold_add_bin:
  "n \<le> length xs \<Longrightarrow>
     fold (add_bin xs) [0..<n] (Some v) = Some (v + (\<Sum>i<n. real (unat (xs ! i))))"
  by (induction n) (simp_all add: add_bin_def)

lemma fold_add_bin_None: "fold (add_bin xs) is None = None"
  by (induction "is") (simp_all add: add_bin_def)

lemma fold_add_bin_short:
  assumes "length xs < n"
  shows "fold (add_bin xs) [0..<n] (Some v) = None"
proof -
  have "[0..<n] = [0..<length xs] @ length xs # [Suc (length xs)..<n]"
    using assms by (metis less_imp_le_nat upt_add_eq_append le_add_diff_inverse upt_conv_Cons zero_le)
  then show ?thesis
    by (simp add: fold_add_bin fold_add_bin_None add_bin_def)
qed

lemma dataArray_of_nth:
  "i < frequencyBinCount a \<Longrightarrow> dataArray_of a ! i = byteFrequencyData a i"
  by (simp add: dataArray_of_def)

text \<open>
  An analyser with fewer than 20 bins would make the sum \<^verbatim>\<open>NaN\<close>; the analyser of this
  program has 128 bins.
\<close>

lemma beat_factor_short_array:
  "frequencyBinCount a < 20 \<Longrightarrow> beatFactor_of (Some a) s = None"
  by (simp add: beatFactor_of_def fold_add_bin_short dataArray_of_def)

text \<open>
  C5. Without an analyser the beat factor is exactly \<open>1\<close>. With an analyser of at least
  20 bins it is \<open>1 + (average of the first 20 bin magnitudes / 255) \<times> beatSensitivity\<close>,
  and then it is at least \<open>1\<close> whenever \<open>beatSensitivity\<close> is not negative. The analyser
  that \<^verbatim>\<open>initAudio\<close> attaches has at least 20 bins, and the bin magnitudes are bytes, so
  they lie in \<open>[0, 255]\<close>.
\<close>

theorem beat_factor:
  "beatFactor_of None s = Some 1
   \<and> (20 \<le> frequencyBinCount a \<longrightarrow>
         beatFactor_of (Some a) s =
           Some (1 + ((\<Sum>i<20. real (unat (byteFrequencyData a i))) / 20 / 255) * beatSensitivity s)
         \<and> (0 \<le> beatSensitivity s \<longrightarrow> (\<exists>b. beatFactor_of (Some a) s = Some b \<and> 1 \<le> b)))
   \<and> 20 \<le> frequencyBinCount (initAudio_analyser d)
   \<and> (\<forall>i. real (unat (byteFrequencyData a i)) \<le> 255)"
proof (intro conjI impI allI)
  show "beatFactor_of None s = Some 1"
    by (simp add: beatFactor_of_def)
next
  show "20 \<le> frequencyBinCount (initAudio_analyser d)"
    by (simp add: initAudio_analyser_def)
next
  assume n: "20 \<le> frequencyBinCount a"
  have "(\<Sum>i<20. real (unat (dataArray_of a ! i))) = (\<Sum>i<20. real (unat (byteFrequencyData a i)))"
    using n by (intro sum.cong) (simp_all add: dataArray_of_nth)
  moreover have "20 \<le> length (dataArray_of a)"
    using n by (simp add: dataArray_of_def)
  ultimately show eq: "beatFactor_of (Some a) s =
      Some (1 + ((\<Sum>i<20. real (unat (byteFrequencyData a i))) / 20 / 255) * beatSensitivity s)"
    by (simp add: beatFactor_of_def fold_add_bin Let_def)
  assume "0 \<le> beatSensitivity s"
  moreover have "0 \<le> (\<Sum>i<20. real (unat (byteFrequencyData a i)))"
    by (intro sum_nonneg) (rule of_nat_0_le_iff)
  ultimately have "1 \<le> 1 + ((\<Sum>i<20. real (unat (byteFrequencyData a i))) / 20 / 255) * beatSensitivity s"
    by simp
  with eq show "\<exists>b. beatFactor_of (Some a) s = Some b \<and> 1 \<le> b"
    by blast
next
  fix i
  have "unat (byteFrequencyData a i) < 2 ^ 8"
    using unsigned_less [of "byteFrequencyData a i"] by simp
  then have "unat (byteFrequencyData a i) \<le> 255"
    by simp
  then have "real (unat (byteFrequencyData a i)) \<le> real 255"
    by (rule of_nat_mono)
  then show "real (unat (byteFrequencyData a i)) \<le> 255"
    by (simp only: of_nat_numeral)
qed

text \<open>
  The default settings (\<open>beatSensitivity = 1\<close>) with every bin at full scale give the beat
  factor \<open>2\<close>; without an analyser they give \<open>1\<close>.
\<close>

theorem beat_factor_witness:
  "(20::nat) \<le> frequencyBinCount analyser_full_scale \<and> (0::real) \<le> beatSensitivity DEFAULT_SETTINGS
   \<and> beatFactor_of (Some analyser_full_scale) DEFAULT_SETTINGS = Some 2
   \<and> beatFactor_of None DEFAULT_SETTINGS = Some 1"
proof -
  have n: "20 \<le> frequencyBinCount analyser_full_scale"
    using beat_factor [of DEFAULT_SETTINGS analyser_full_scale "\<lambda>i. 255"]
    unfolding analyser_full_scale_def by blast
  have "beatFactor_of (Some analyser_full_scale) DEFAULT_SETTINGS =
          Some (1 + ((\<Sum>i<20. real (unat (byteFrequencyData analyser_full_scale i))) / 20 / 255)
                      * beatSensitivity DEFAULT_SETTINGS)"
    using beat_factor [of DEFAULT_SETTINGS analyser_full_scale "\<lambda>i. 255"] n by blast
  moreover have "byteFrequencyData analyser_full_scale = (\<lambda>i. 255)"
    by (simp add: analyser_full_scale_def initAudio_analyser_def)
  moreover have "beatSensitivity DEFAULT_SETTINGS = 1"
    by (simp add: DEFAULT_SETTINGS_def)
  ultimately have "beatFactor_of (Some analyser_full_scale) DEFAULT_SETTINGS = Some 2"
    by simp
  moreover have "beatFactor_of None DEFAULT_SETTINGS = Some 1"
    using beat_factor [of DEFAULT_SETTINGS analyser_full_scale "\<lambda>i. 255"] by blast
  ultimately show ?thesis
    using n by (simp add: DEFAULT_SETTINGS_def)
qed

section \<open>Properties of the particle update\<close>

lemmas update_defs = Particle_update_def Particle_boundary_def Particle_turn_def Particle_move_def

lemmas eval_defs = particle_pass_def particle_loop.simps particle_callback_def update_defs Let_def
  removes_def expired_or_outside_def splice1_def DEFAULT_SETTINGS_def nullish_def half_def

lemma update_style [simp]: "style (Particle_update w h bf sf r p) = style p"
  by (simp add: update_defs Let_def)

lemma update_maxLife [simp]: "maxLife (Particle_update w h bf sf r p) = maxLife p"
  by (simp add: update_defs Let_def)

lemma update_life:
  "life (Particle_update w h bf sf r p) = (if resets h bf sf p then 0 else life p + 1)"
  by (auto simp: update_defs Let_def resets_def)

text \<open>
  The first part of every call of \<^verbatim>\<open>update\<close>: the position moves by the velocity scaled by
  both factors, with the sinusoidal drift in \<open>x\<close> for the OCEAN and SNOW styles only, the
  angle advances, and the age is incremented. The boundary policy then acts on the result.
\<close>

lemma update_advance:
  "let q = Particle_turn bf sf (Particle_move bf sf p)
   in px q = px p + (vx p * sf * bf
                      + (if style p = OCEAN \<or> style p = SNOW then sin (real (life p) * 0.05) * 0.5 else 0))
      \<and> py q = py p + vy p * sf * bf
      \<and> angle q = angle p + rotationSpeed p * bf * sf
      \<and> life q = life p + 1
      \<and> Particle_update w h bf sf r p = Particle_boundary w h r q"
  by (simp add: Particle_update_def Particle_turn_def Particle_move_def Let_def)

lemma sin_drift_bound: "sin (13 / 2) / 2 - 601 / 4 < (- 100 :: real)"
  using sin_le_one [of "13 / 2 :: real"] by linarith

section \<open>Properties of the callback and of the loop\<close>

lemma removes_iff:
  "removes s w h q \<longleftrightarrow> expired q \<or> (\<not> wraparound (particleStyle s) \<and> outside w h q)"
  by (auto simp: removes_def expired_or_outside_def expired_def wraparound_def outside_def)

lemma splice1_update: "splice1 (pool[k := q]) k = take k pool @ drop (Suc k) pool"
  by (simp add: splice1_def drop_update_cancel)

lemma set_splice1_update: "set (splice1 (pool[k := q]) k) \<subseteq> set pool"
proof -
  have "set (take k pool) \<subseteq> set pool" "set (drop (Suc k) pool) \<subseteq> set pool"
    by (rule set_take_subset, rule set_drop_subset)
  then show ?thesis
    by (simp add: splice1_update)
qed

lemma callback_fst:
  "fst (particle_callback s w h bf r k st) =
     (let q = Particle_update w h bf (nullish (particleSpeed s) 1.0) r (fst st ! k)
      in if removes s w h q then splice1 ((fst st)[k := q]) k else (fst st)[k := q])"
  by (simp add: particle_callback_def Let_def)

lemma callback_snd:
  "snd (particle_callback s w h bf r k st) =
     snd st @ [Particle_update w h bf (nullish (particleSpeed s) 1.0) r (fst st ! k)]"
  by (simp add: particle_callback_def Let_def)

text \<open>An update ages a particle by at most one frame and leaves its maximal age alone.\<close>

lemma young_drawable_update:
  assumes "young p"
  shows "drawable (Particle_update w h bf sf r p)"
proof -
  have "life (Particle_update w h bf sf r p) \<le> life p + 1"
    by (simp add: update_life)
  then have "real (life (Particle_update w h bf sf r p)) \<le> real (life p) + 1"
    by (metis of_nat_1 of_nat_add of_nat_le_iff)
  moreover have "0 \<le> real (life p)" by simp
  ultimately show ?thesis
    using assms unfolding young_def drawable_def update_maxLife by linarith
qed

lemma kept_young: "\<not> removes s w h q \<Longrightarrow> young q"
  by (auto simp: removes_iff expired_def young_def)

lemma callback_inv:
  assumes k: "k < length (fst st)"
    and P: "\<forall>p \<in> set (fst st). young p"
    and Q: "\<forall>d \<in> set (snd st). drawable d"
  shows "(\<forall>p \<in> set (fst (particle_callback s w h bf r k st)). young p)
         \<and> (\<forall>d \<in> set (snd (particle_callback s w h bf r k st)). drawable d)"
proof -
  define q where "q = Particle_update w h bf (nullish (particleSpeed s) 1.0) r (fst st ! k)"
  have "young (fst st ! k)"
    using k P by simp
  then have dq: "drawable q"
    unfolding q_def by (rule young_drawable_update)
  have pool: "\<forall>p \<in> set (fst (particle_callback s w h bf r k st)). young p"
  proof (cases "removes s w h q")
    case True
    then have "fst (particle_callback s w h bf r k st) = splice1 ((fst st)[k := q]) k"
      by (simp add: callback_fst q_def)
    then show ?thesis
      using P set_splice1_update [of "fst st" k q] by auto
  next
    case False
    then have "fst (particle_callback s w h bf r k st) = (fst st)[k := q]"
      by (simp add: callback_fst q_def)
    moreover have "young q"
      using False by (rule kept_young)
    ultimately show ?thesis
      using P set_update_subset_insert [of "fst st" k q] by auto
  qed
  have "snd (particle_callback s w h bf r k st) = snd st @ [q]"
    by (simp add: callback_snd q_def)
  then have "\<forall>d \<in> set (snd (particle_callback s w h bf r k st)). drawable d"
    using Q dq by simp
  with pool show ?thesis by blast
qed

lemma loop_inv:
  assumes "\<forall>p \<in> set (fst st). young p" and "\<forall>d \<in> set (snd st). drawable d"
  shows "(\<forall>p \<in> set (fst (particle_loop s w h bf rnd len k st)). young p)
         \<and> (\<forall>d \<in> set (snd (particle_loop s w h bf rnd len k st)). drawable d)"
  using assms
proof (induction s w h bf rnd len k st rule: particle_loop.induct)
  case (1 s w h bf rnd len k st)
  show ?case
  proof (cases "k < len")
    case False
    then show ?thesis
      using "1.prems" by (simp add: particle_loop.simps)
  next
    case len: True
    show ?thesis
    proof (cases "k < length (fst st)")
      case True
      have "(\<forall>p \<in> set (fst (particle_callback s w h bf (rnd k) k st)). young p)
            \<and> (\<forall>d \<in> set (snd (particle_callback s w h bf (rnd k) k st)). drawable d)"
        using True "1.prems" by (intro callback_inv)
      then have "(\<forall>p \<in> set (fst (particle_loop s w h bf rnd len (Suc k)
                      (particle_callback s w h bf (rnd k) k st))). young p)
            \<and> (\<forall>d \<in> set (snd (particle_loop s w h bf rnd len (Suc k)
                      (particle_callback s w h bf (rnd k) k st))). drawable d)"
        using "1.IH"(1) [OF len True] by blast
      then show ?thesis
        using len True by (subst (1 2) particle_loop.simps) simp
    next
      case False
      have "(\<forall>p \<in> set (fst (particle_loop s w h bf rnd len (Suc k) st)). young p)
            \<and> (\<forall>d \<in> set (snd (particle_loop s w h bf rnd len (Suc k) st)). drawable d)"
        using "1.IH"(2) [OF len False] "1.prems" by blast
      then show ?thesis
        using len False by (subst (1 2) particle_loop.simps) simp
    qed
  qed
qed

lemma new_Particle_young:
  assumes "0 \<le> rs 2" and "0 \<le> rs 9"
  shows "young (new_Particle w h col sty m rs)"
  using assms by (simp add: new_Particle_def young_def Let_def)

lemma spawn_young:
  assumes "\<forall>p \<in> set pool. young p" and "\<forall>i. 0 \<le> rs i"
  shows "\<forall>p \<in> set (spawn s w h rc rs pool). young p"
  using assms by (simp add: spawn_def new_Particle_young)

lemma frame_inv:
  assumes "\<forall>p \<in> set pool. young p" and "\<forall>i. 0 \<le> rs i"
  shows "(\<forall>p \<in> set (fst (particles_frame s w h bf rc rs rnd pool)). young p)
         \<and> (\<forall>d \<in> set (snd (particles_frame s w h bf rc rs rnd pool)). drawable d)"
  unfolding particles_frame_def particle_pass_def
  using spawn_young [OF assms] by (intro loop_inv) simp_all

lemma drawable_alpha:
  assumes "drawable d"
  shows "draw_globalAlpha d = (if young d then 1 - real (life d) / maxLife d else 0)"
proof (cases "young d")
  case True
  then have "real (life d) / maxLife d < 1"
    using assms by (simp add: young_def drawable_def)
  then show ?thesis
    using True by (simp add: draw_globalAlpha_def)
next
  case False
  then have "1 \<le> real (life d) / maxLife d"
    using assms by (simp add: young_def drawable_def)
  then show ?thesis
    using False by (simp add: draw_globalAlpha_def)
qed

text \<open>
  A pass in which no particle is removed updates and draws every particle of the pool, in
  order.
\<close>

lemma loop_no_removal:
  assumes "len = length pool"
    and "\<forall>j. k \<le> j \<and> j < len \<longrightarrow>
           \<not> removes s w h (Particle_update w h bf (nullish (particleSpeed s) 1.0) (rnd j) (pool ! j))"
  shows "particle_loop s w h bf rnd len k (pool, drawn) =
           (take k pool @ map (\<lambda>j. Particle_update w h bf (nullish (particleSpeed s) 1.0) (rnd j) (pool ! j)) [k..<len],
            drawn @ map (\<lambda>j. Particle_update w h bf (nullish (particleSpeed s) 1.0) (rnd j) (pool ! j)) [k..<len])"
  using assms
proof (induction "len - k" arbitrary: k pool drawn)
  case 0
  then have "\<not> k < len" by simp
  then show ?case
    using "0.prems"(1) by (simp add: particle_loop.simps)
next
  case (Suc n)
  define upd where "upd j p = Particle_update w h bf (nullish (particleSpeed s) 1.0) (rnd j) p" for j p
  have k: "k < len" using Suc.hyps(2) by simp
  then have kl: "k < length pool" using Suc.prems(1) by simp
  define q where "q = upd k (pool ! k)"
  have keep: "\<not> removes s w h q"
    using Suc.prems(2) k by (simp add: q_def upd_def)
  have cb: "particle_callback s w h bf (rnd k) k (pool, drawn) = (pool[k := q], drawn @ [q])"
    using keep by (simp add: particle_callback_def Let_def q_def upd_def)
  have IH: "particle_loop s w h bf rnd len (Suc k) (pool[k := q], drawn @ [q]) =
           (take (Suc k) (pool[k := q]) @ map (\<lambda>j. upd j (pool[k := q] ! j)) [Suc k..<len],
            (drawn @ [q]) @ map (\<lambda>j. upd j (pool[k := q] ! j)) [Suc k..<len])"
    unfolding upd_def
  proof (rule Suc.hyps(1))
    show "n = len - Suc k" using Suc.hyps(2) by simp
    show "len = length (pool[k := q])" using Suc.prems(1) by simp
    show "\<forall>j. Suc k \<le> j \<and> j < len \<longrightarrow>
            \<not> removes s w h (Particle_update w h bf (nullish (particleSpeed s) 1.0) (rnd j) (pool[k := q] ! j))"
      using Suc.prems(2) by simp
  qed
  have m: "map (\<lambda>j. upd j (pool[k := q] ! j)) [Suc k..<len] = map (\<lambda>j. upd j (pool ! j)) [Suc k..<len]"
    by (rule map_cong) simp_all
  have t: "take (Suc k) (pool[k := q]) = take k pool @ [q]"
    using kl by (simp add: take_Suc_conv_app_nth)
  have u: "[k..<len] = k # [Suc k..<len]"
    using k by (rule upt_conv_Cons)
  have "particle_loop s w h bf rnd len k (pool, drawn) =
          particle_loop s w h bf rnd len (Suc k) (pool[k := q], drawn @ [q])"
    using k kl cb by (subst particle_loop.simps) simp
  then show ?case
    unfolding IH m t u upd_def [symmetric] by (simp add: q_def)
qed

lemma pass_no_removal:
  assumes "\<forall>j < length pool.
             \<not> removes s w h (Particle_update w h bf (nullish (particleSpeed s) 1.0) (rnd j) (pool ! j))"
  shows "particle_pass s w h bf rnd pool =
           (map (\<lambda>j. Particle_update w h bf (nullish (particleSpeed s) 1.0) (rnd j) (pool ! j)) [0..<length pool],
            map (\<lambda>j. Particle_update w h bf (nullish (particleSpeed s) 1.0) (rnd j) (pool ! j)) [0..<length pool])"
  unfolding particle_pass_def using assms by (subst loop_no_removal) simp_all

text \<open>
  The loop at index \<open>k\<close> never touches the part of the pool before \<open>k\<close>. So when the callback
  at index \<open>k\<close> removes its particle and another particle follows, that particle moves down
  to index \<open>k\<close> and stays there as it was: the loop goes on at index \<open>k + 1\<close>.
\<close>

lemma callback_prefix:
  "take k (fst (particle_callback s w h bf r k st)) = take k (fst st)"
  by (auto simp: callback_fst Let_def splice1_update)

lemma loop_prefix_unchanged:
  "take k (fst (particle_loop s w h bf rnd len k st)) = take k (fst st)"
proof (induction s w h bf rnd len k st rule: particle_loop.induct)
  case (1 s w h bf rnd len k st)
  show ?case
  proof (cases "k < len")
    case False
    then show ?thesis
      by (simp add: particle_loop.simps)
  next
    case len: True
    show ?thesis
    proof (cases "k < length (fst st)")
      case True
      define st1 where "st1 = particle_callback s w h bf (rnd k) k st"
      have "take (Suc k) (fst (particle_loop s w h bf rnd len (Suc k) st1)) = take (Suc k) (fst st1)"
        unfolding st1_def by (rule "1.IH"(1) [OF len True])
      then have "take k (take (Suc k) (fst (particle_loop s w h bf rnd len (Suc k) st1)))
                 = take k (take (Suc k) (fst st1))"
        by simp
      then have "take k (fst (particle_loop s w h bf rnd len (Suc k) st1)) = take k (fst st1)"
        by (simp add: min_def)
      moreover have "particle_loop s w h bf rnd len k st = particle_loop s w h bf rnd len (Suc k) st1"
        using len True by (subst particle_loop.simps) (simp add: st1_def)
      ultimately show ?thesis
        by (simp add: st1_def callback_prefix)
    next
      case False
      have "take (Suc k) (fst (particle_loop s w h bf rnd len (Suc k) st)) = take (Suc k) (fst st)"
        by (rule "1.IH"(2) [OF len False])
      then have "take k (take (Suc k) (fst (particle_loop s w h bf rnd len (Suc k) st)))
                 = take k (take (Suc k) (fst st))"
        by simp
      then have "take k (fst (particle_loop s w h bf rnd len (Suc k) st)) = take k (fst st)"
        by (simp add: min_def)
      moreover have "particle_loop s w h bf rnd len k st = particle_loop s w h bf rnd len (Suc k) st"
        using len False by (subst particle_loop.simps) simp
      ultimately show ?thesis
        by simp
    qed
  qed
qed

lemma loop_skips_after_removal:
  assumes len: "k < len" and next_one: "Suc k < length pool"
    and rem: "removes s w h (Particle_update w h bf (nullish (particleSpeed s) 1.0) (rnd k) (pool ! k))"
  shows "take (Suc k) (fst (particle_loop s w h bf rnd len k (pool, drawn))) = take k pool @ [pool ! Suc k]"
proof -
  define st1 where "st1 = particle_callback s w h bf (rnd k) k (pool, drawn)"
  have f: "fst st1 = take k pool @ drop (Suc k) pool"
    using rem by (simp add: st1_def callback_fst Let_def splice1_update)
  have "particle_loop s w h bf rnd len k (pool, drawn) = particle_loop s w h bf rnd len (Suc k) st1"
    using len next_one by (subst particle_loop.simps) (simp add: st1_def)
  then have "take (Suc k) (fst (particle_loop s w h bf rnd len k (pool, drawn))) = take (Suc k) (fst st1)"
    by (simp add: loop_prefix_unchanged)
  also have "\<dots> = take k pool @ take 1 (drop (Suc k) pool)"
    using next_one by (simp add: f)
  also have "take 1 (drop (Suc k) pool) = [pool ! Suc k]"
    using next_one by (simp add: take_Suc_conv_app_nth)
  finally show ?thesis .
qed

section \<open>Properties of the removal decision\<close>

text \<open>
  C2 as stated fails: the policy is not chosen by the particle's own style. With the
  default settings (particle style STANDARD), the OCEAN particle \<open>p_ocean_far\<close> is removed
  in the pass for its position, 150 units past the left edge, although its style wraps
  around and its age is below its maximal age.
\<close>

theorem removal_by_own_style_counterexample:
  "wraparound (style p_ocean_far)
   \<and> \<not> wraparound (particleStyle DEFAULT_SETTINGS)
   \<and> particle_pass DEFAULT_SETTINGS 1920 1080 1 half [p_ocean_far]
        = ([], [Particle_update 1920 1080 1 1 0.5 p_ocean_far])
   \<and> \<not> expired (Particle_update 1920 1080 1 1 0.5 p_ocean_far)"
  using sin_drift_bound
  by (simp add: eval_defs p_ocean_far_def wraparound_def expired_def)

text \<open>
  C2, amended. The callback updates the particle at its index, draws it, and decides on
  the updated particle by the currently selected style \<^verbatim>\<open>settings.particleStyle\<close>: when
  that style wraps around (OCEAN, MUSICAL, SNOW) the particle is removed exactly when its
  age has reached its maximal age, and never for its position; otherwise it is removed
  exactly when its age has reached its maximal age or its position is more than 100 units
  outside the canvas on some side. For a particle whose own style is the selected one,
  this is the policy of its own style.
\<close>

theorem removal_policy:
  assumes "k < length pool"
  shows "let q = Particle_update w h bf (nullish (particleSpeed s) 1.0) r (pool ! k);
             st' = particle_callback s w h bf r k (pool, drawn)
         in snd st' = drawn @ [q]
            \<and> fst st' = (if removes s w h q then take k pool @ drop (Suc k) pool else pool[k := q])
            \<and> (wraparound (particleStyle s) \<longrightarrow> removes s w h q = expired q)
            \<and> (\<not> wraparound (particleStyle s) \<longrightarrow> removes s w h q = (expired q \<or> outside w h q))
            \<and> (style (pool ! k) = particleStyle s \<longrightarrow>
                  removes s w h q = (if wraparound (style q) then expired q else expired q \<or> outside w h q))"
  by (simp add: Let_def callback_fst callback_snd splice1_update removes_iff)

text \<open>
  With the OCEAN style selected, \<open>p_ocean_far\<close> stays in the pool although it is outside;
  with the STANDARD style selected, \<open>p_expiring\<close> is removed for its age.
\<close>

theorem removal_policy_witness:
  "(0::nat) < length [p_ocean_far]
   \<and> fst (particle_callback (DEFAULT_SETTINGS\<lparr>particleStyle := OCEAN\<rparr>) 1920 1080 1 0.5 0 ([p_ocean_far], []))
        = [Particle_update 1920 1080 1 1 0.5 p_ocean_far]
   \<and> outside 1920 1080 (Particle_update 1920 1080 1 1 0.5 p_ocean_far)
   \<and> fst (particle_callback DEFAULT_SETTINGS 1920 1080 1 0.5 0 ([p_expiring], [])) = []
   \<and> expired (Particle_update 1920 1080 1 1 0.5 p_expiring)"
proof -
  have k: "0 < length [p_ocean_far]" "0 < length [p_expiring]"
    by simp_all
  have sp: "nullish (particleSpeed DEFAULT_SETTINGS) 1.0 = 1"
    "nullish (particleSpeed (DEFAULT_SETTINGS\<lparr>particleStyle := OCEAN\<rparr>)) 1.0 = 1"
    by (simp_all add: DEFAULT_SETTINGS_def nullish_def)
  have o: "outside 1920 1080 (Particle_update 1920 1080 1 1 0.5 p_ocean_far)"
    "\<not> expired (Particle_update 1920 1080 1 1 0.5 p_ocean_far)"
    using sin_drift_bound
    by (simp_all add: outside_def expired_def update_defs Let_def p_ocean_far_def)
  have e: "expired (Particle_update 1920 1080 1 1 0.5 p_expiring)"
    by (simp add: expired_def update_defs Let_def p_expiring_def)
  have w: "wraparound (particleStyle (DEFAULT_SETTINGS\<lparr>particleStyle := OCEAN\<rparr>))"
    "\<not> wraparound (particleStyle DEFAULT_SETTINGS)"
    by (simp_all add: wraparound_def DEFAULT_SETTINGS_def)
  have "fst (particle_callback (DEFAULT_SETTINGS\<lparr>particleStyle := OCEAN\<rparr>) 1920 1080 1 0.5 0 ([p_ocean_far], []))
        = [Particle_update 1920 1080 1 1 0.5 p_ocean_far]"
    using removal_policy [OF k(1), where w = 1920 and h = 1080 and bf = 1
        and s = "DEFAULT_SETTINGS\<lparr>particleStyle := OCEAN\<rparr>" and r = "0.5" and drawn = "[]"] o w
    unfolding Let_def sp by simp
  moreover have "fst (particle_callback DEFAULT_SETTINGS 1920 1080 1 0.5 0 ([p_expiring], [])) = []"
    using removal_policy [OF k(2), where w = 1920 and h = 1080 and bf = 1
        and s = DEFAULT_SETTINGS and r = "0.5" and drawn = "[]"] e w
    unfolding Let_def sp by simp
  ultimately show ?thesis
    using o e by simp
qed

text \<open>
  C10. The removal decision taken on the updated particle does not depend on the style
  stored in the particle (which the update leaves unchanged) but on the selected style
  \<^verbatim>\<open>settings.particleStyle\<close>: whatever its own style is, the particle is removed exactly
  when its age has reached its maximal age, or the selected style does not wrap around
  and the particle is more than 100 units outside the canvas. In particular a particle
  whose own style wraps around is removed for its position once the selected style does
  not wrap around.
\<close>

theorem removal_follows_setting:
  assumes "k < length pool"
  shows "let q = Particle_update w h bf (nullish (particleSpeed s) 1.0) r (pool ! k);
             pool' = fst (particle_callback s w h bf r k (pool, drawn))
         in removes s w h (q\<lparr>style := sty\<rparr>) = removes s w h q
            \<and> style q = style (pool ! k)
            \<and> pool' = (if expired q \<or> (\<not> wraparound (particleStyle s) \<and> outside w h q)
                       then take k pool @ drop (Suc k) pool else pool[k := q])
            \<and> (wraparound (style q) \<and> \<not> wraparound (particleStyle s) \<and> outside w h q
                  \<longrightarrow> pool' = take k pool @ drop (Suc k) pool)"
proof -
  have "removes s w h (q\<lparr>style := sty\<rparr>) = removes s w h q" for q
    by (simp add: removes_iff expired_def outside_def)
  then show ?thesis
    by (auto simp: Let_def callback_fst splice1_update removes_iff)
qed

text \<open>
  The OCEAN particle \<open>p_ocean_far\<close>, below its maximal age, is removed for its position once
  the STANDARD style is selected; with the MUSICAL style selected, the STANDARD particle
  \<open>p_fresh\<close> is kept under the policy of the wrapping styles.
\<close>

theorem removal_follows_setting_witness:
  "(0::nat) < length [p_ocean_far]
   \<and> style (Particle_update 1920 1080 1 1 0.5 p_ocean_far) = OCEAN
   \<and> particleStyle DEFAULT_SETTINGS = STANDARD
   \<and> \<not> expired (Particle_update 1920 1080 1 1 0.5 p_ocean_far)
   \<and> fst (particle_callback DEFAULT_SETTINGS 1920 1080 1 0.5 0 ([p_ocean_far], [])) = []
   \<and> fst (particle_callback (DEFAULT_SETTINGS\<lparr>particleStyle := MUSICAL\<rparr>) 1920 1080 1 0.5 0 ([p_fresh], []))
        = [Particle_update 1920 1080 1 1 0.5 p_fresh]"
proof -
  have k: "0 < length [p_ocean_far]" "0 < length [p_fresh]"
    by simp_all
  have sp: "nullish (particleSpeed DEFAULT_SETTINGS) 1.0 = 1"
    "nullish (particleSpeed (DEFAULT_SETTINGS\<lparr>particleStyle := MUSICAL\<rparr>)) 1.0 = 1"
    by (simp_all add: DEFAULT_SETTINGS_def nullish_def)
  have o: "outside 1920 1080 (Particle_update 1920 1080 1 1 0.5 p_ocean_far)"
    "\<not> expired (Particle_update 1920 1080 1 1 0.5 p_ocean_far)"
    "style (Particle_update 1920 1080 1 1 0.5 p_ocean_far) = OCEAN"
    using sin_drift_bound
    by (simp_all add: outside_def expired_def update_defs Let_def p_ocean_far_def)
  have e: "\<not> expired (Particle_update 1920 1080 1 1 0.5 p_fresh)"
    by (simp add: expired_def update_defs Let_def p_fresh_def)
  have w: "wraparound (particleStyle (DEFAULT_SETTINGS\<lparr>particleStyle := MUSICAL\<rparr>))"
    "\<not> wraparound (particleStyle DEFAULT_SETTINGS)" "particleStyle DEFAULT_SETTINGS = STANDARD"
    "wraparound OCEAN"
    by (simp_all add: wraparound_def DEFAULT_SETTINGS_def)
  have "fst (particle_callback DEFAULT_SETTINGS 1920 1080 1 0.5 0 ([p_ocean_far], [])) = []"
    using removal_follows_setting [OF k(1), where w = 1920 and h = 1080 and bf = 1
        and s = DEFAULT_SETTINGS and r = "0.5" and drawn = "[]"] o w
    unfolding Let_def sp by simp
  moreover have "fst (particle_callback (DEFAULT_SETTINGS\<lparr>particleStyle := MUSICAL\<rparr>) 1920 1080 1 0.5 0 ([p_fresh], []))
        = [Particle_update 1920 1080 1 1 0.5 p_fresh]"
    using removal_follows_setting [OF k(2), where w = 1920 and h = 1080 and bf = 1
        and s = "DEFAULT_SETTINGS\<lparr>particleStyle := MUSICAL\<rparr>" and r = "0.5" and drawn = "[]"] e w
    unfolding Let_def sp by simp
  ultimately show ?thesis
    using o w by simp
qed

section \<open>Properties of age and drawing\<close>

text \<open>
  C3 as stated fails in both halves. The update that carries \<open>p_ocean_top\<close> across the
  line above the top edge resets its age from 160 to 0. And in the pass over
  \<open>p_expiring\<close> and \<open>p_fresh\<close>, \<open>p_expiring\<close> is passed to \<^verbatim>\<open>draw\<close> with age 101, above its
  maximal age 100.5: the removal test comes after the drawing.
\<close>

theorem age_plus_one_counterexample:
  "life p_ocean_top = 160
   \<and> life (Particle_update 1920 1080 1 1 0.5 p_ocean_top) = 0
   \<and> snd (particle_pass DEFAULT_SETTINGS 1920 1080 1 half [p_expiring, p_fresh])
        = [Particle_update 1920 1080 1 1 0.5 p_expiring]
   \<and> maxLife (Particle_update 1920 1080 1 1 0.5 p_expiring)
        < real (life (Particle_update 1920 1080 1 1 0.5 p_expiring))"
  by (simp add: eval_defs p_ocean_top_def p_expiring_def p_fresh_def)

text \<open>
  C3, amended. A call of \<^verbatim>\<open>update\<close> leaves the age at the old age plus one, except when it
  resets the particle to the opposite edge, which leaves the age at \<open>0\<close>. And if every
  particle of the pool is below its maximal age when a frame starts, then every particle
  passed to \<^verbatim>\<open>draw\<close> in that frame has an age below its maximal age plus one, and is drawn
  with the opacity \<open>1 - age / maxAge\<close> when its age is below its maximal age and with
  opacity \<open>0\<close> otherwise; and every particle left in the pool at the end of the frame is
  again below its maximal age. (The values of \<^verbatim>\<open>Math.random()\<close> are not negative.)
\<close>

theorem age_step_and_draw_bound:
  "life (Particle_update w h bf sf r p) = (if resets h bf sf p then 0 else life p + 1)
   \<and> ((\<forall>p \<in> set pool. real (life p) < maxLife p) \<and> (\<forall>i. 0 \<le> rs i) \<longrightarrow>
        (\<forall>d \<in> set (snd (particles_frame s w h bf rc rs rnd pool)).
            real (life d) < maxLife d + 1
            \<and> draw_globalAlpha d = (if real (life d) < maxLife d then 1 - real (life d) / maxLife d else 0))
        \<and> (\<forall>q \<in> set (fst (particles_frame s w h bf rc rs rnd pool)). real (life q) < maxLife q))"
proof (intro conjI impI)
  show "life (Particle_update w h bf sf r p) = (if resets h bf sf p then 0 else life p + 1)"
    by (rule update_life)
next
  assume a: "(\<forall>p \<in> set pool. real (life p) < maxLife p) \<and> (\<forall>i. 0 \<le> rs i)"
  then have inv: "(\<forall>p \<in> set (fst (particles_frame s w h bf rc rs rnd pool)). young p)
         \<and> (\<forall>d \<in> set (snd (particles_frame s w h bf rc rs rnd pool)). drawable d)"
    by (intro frame_inv) (simp_all add: young_def)
  show "\<forall>d \<in> set (snd (particles_frame s w h bf rc rs rnd pool)).
            real (life d) < maxLife d + 1
            \<and> draw_globalAlpha d = (if real (life d) < maxLife d then 1 - real (life d) / maxLife d else 0)"
  proof
    fix d
    assume "d \<in> set (snd (particles_frame s w h bf rc rs rnd pool))"
    then have "drawable d" using inv by blast
    then show "real (life d) < maxLife d + 1
            \<and> draw_globalAlpha d = (if real (life d) < maxLife d then 1 - real (life d) / maxLife d else 0)"
      using drawable_alpha [of d] by (simp add: drawable_def young_def)
  qed
  show "\<forall>q \<in> set (fst (particles_frame s w h bf rc rs rnd pool)). real (life q) < maxLife q"
    using inv by (simp add: young_def)
qed

text \<open>
  A frame with the default settings on the pool of \<open>p_expiring\<close> and \<open>p_fresh\<close>: a third
  particle is spawned, \<open>p_expiring\<close> and the new particle are drawn with ages 101 and 1,
  and the pool is left with \<open>p_fresh\<close> at age 3 and the new particle at age 1.
\<close>

theorem age_step_and_draw_bound_witness:
  "real (life p_expiring) < maxLife p_expiring \<and> real (life p_fresh) < maxLife p_fresh
   \<and> life (Particle_update 1920 1080 1 1 0.5 p_fresh) = life p_fresh + 1
   \<and> list_all (\<lambda>d. real (life d) < maxLife d + 1)
        (snd (particles_frame DEFAULT_SETTINGS 1920 1080 1 0.5 half half [p_expiring, p_fresh]))
   \<and> list_all (\<lambda>q. real (life q) < maxLife q)
        (fst (particles_frame DEFAULT_SETTINGS 1920 1080 1 0.5 half half [p_expiring, p_fresh]))
   \<and> map life (snd (particles_frame DEFAULT_SETTINGS 1920 1080 1 0.5 half half [p_expiring, p_fresh])) = [101, 1]
   \<and> map life (fst (particles_frame DEFAULT_SETTINGS 1920 1080 1 0.5 half half [p_expiring, p_fresh])) = [3, 1]"
proof -
  have y: "real (life p_expiring) < maxLife p_expiring" "real (life p_fresh) < maxLife p_fresh"
    by (simp_all add: p_expiring_def p_fresh_def)
  then have pool: "\<forall>p \<in> set [p_expiring, p_fresh]. real (life p) < maxLife p"
    by simp
  have rs: "\<forall>i. 0 \<le> half i"
    by (simp add: half_def)
  have nr: "\<not> resets 1080 1 1 p_fresh"
    by (simp add: resets_def p_fresh_def)
  note t = age_step_and_draw_bound [where p = p_fresh and pool = "[p_expiring, p_fresh]" and rs = half
      and w = 1920 and h = 1080 and bf = 1 and sf = 1 and r = "0.5" and s = DEFAULT_SETTINGS
      and rc = "0.5" and rnd = half]
  have "life (Particle_update 1920 1080 1 1 0.5 p_fresh) = life p_fresh + 1"
    using t nr by simp
  moreover have "list_all (\<lambda>d. real (life d) < maxLife d + 1)
        (snd (particles_frame DEFAULT_SETTINGS 1920 1080 1 0.5 half half [p_expiring, p_fresh]))"
    using t pool rs unfolding list_all_iff by blast
  moreover have "list_all (\<lambda>q. real (life q) < maxLife q)
        (fst (particles_frame DEFAULT_SETTINGS 1920 1080 1 0.5 half half [p_expiring, p_fresh]))"
    using t pool rs unfolding list_all_iff by blast
  moreover have "map life (snd (particles_frame DEFAULT_SETTINGS 1920 1080 1 0.5 half half [p_expiring, p_fresh])) = [101, 1]
     \<and> map life (fst (particles_frame DEFAULT_SETTINGS 1920 1080 1 0.5 half half [p_expiring, p_fresh])) = [3, 1]"
    by (simp add: particles_frame_def spawn_def new_Particle_def eval_defs p_expiring_def p_fresh_def)
  ultimately show ?thesis
    using y by simp
qed

section \<open>The particle after a removed one\<close>

text \<open>
  C4 fails on the code. In the pass over \<open>p_expiring\<close> and \<open>p_fresh\<close>, the callback removes
  \<open>p_expiring\<close> at index \<open>0\<close>, \<open>p_fresh\<close> moves down to index \<open>0\<close>, and the loop goes on at index
  \<open>1\<close>, which is no longer present: \<open>p_fresh\<close> is left in the pool as it was, neither moved
  nor aged nor drawn, although an update would have moved it and aged it by one.
\<close>

theorem pass_skips_particle_after_removal:
  "particle_pass DEFAULT_SETTINGS 1920 1080 1 half [p_expiring, p_fresh]
     = ([p_fresh], [Particle_update 1920 1080 1 1 0.5 p_expiring])
   \<and> removes DEFAULT_SETTINGS 1920 1080 (Particle_update 1920 1080 1 1 0.5 p_expiring)
   \<and> px (Particle_update 1920 1080 1 1 0.5 p_fresh) = px p_fresh + vx p_fresh * 1 * 1
   \<and> py (Particle_update 1920 1080 1 1 0.5 p_fresh) = py p_fresh + vy p_fresh * 1 * 1
   \<and> life (Particle_update 1920 1080 1 1 0.5 p_fresh) = life p_fresh + 1
   \<and> Particle_update 1920 1080 1 1 0.5 p_fresh \<noteq> p_fresh"
proof -
  have "life (Particle_update 1920 1080 1 1 0.5 p_fresh) \<noteq> life p_fresh"
    by (simp add: update_defs Let_def p_fresh_def)
  then have "Particle_update 1920 1080 1 1 0.5 p_fresh \<noteq> p_fresh"
    by auto
  then show ?thesis
    by (simp add: eval_defs p_expiring_def p_fresh_def)
qed

end
